theory Spec2Isabelle
  imports Complex_Main
begin

section \<open>Python values, exceptions and formatted text\<close>

text \<open>
  The monitor handles values that come back from the database drivers: numbers
  (\<open>int\<close>, \<open>Decimal\<close>, \<open>float\<close>), strings and \<open>None\<close> for SQL NULL. A number is
  modelled by its exact value, which is what Python's comparisons between these
  numeric types compare. Strings are ASCII byte strings.
\<close>

datatype pyval = PNone | PNum rat | PStr string

datatype exn =
    TypeError | ValueError | IndexError | AttributeError
  | DriverError
  | KeyboardInterrupt

text \<open>\<open>except Exception\<close> catches every exception class but the ones that derive
  from \<open>BaseException\<close> only.\<close>

fun is_Exception :: "exn \<Rightarrow> bool" where
  "is_Exception KeyboardInterrupt = False"
| "is_Exception _ = True"

text \<open>Truth value of an object in an \<open>if\<close> or an \<open>and\<close>.\<close>

fun truthy :: "pyval \<Rightarrow> bool" where
  "truthy PNone = False"
| "truthy (PNum x) = (x \<noteq> 0)"
| "truthy (PStr s) = (s \<noteq> [])"

text \<open>\<open>v > n\<close> and \<open>v < n\<close> against an integer literal.\<close>

fun py_gt :: "pyval \<Rightarrow> rat \<Rightarrow> exn + bool" where
  "py_gt (PNum x) n = Inr (n < x)"
| "py_gt _ n = Inl TypeError"

fun py_lt :: "pyval \<Rightarrow> rat \<Rightarrow> exn + bool" where
  "py_lt (PNum x) n = Inr (x < n)"
| "py_lt _ n = Inl TypeError"

text \<open>\<open>v * n\<close> and \<open>v / n\<close> for an integer literal \<open>n\<close>; a string times an integer
  is repeated.\<close>

fun py_mul :: "pyval \<Rightarrow> nat \<Rightarrow> exn + pyval" where
  "py_mul (PNum x) n = Inr (PNum (x * of_nat n))"
| "py_mul (PStr s) n = Inr (PStr (concat (replicate n s)))"
| "py_mul PNone n = Inl TypeError"

fun py_div :: "pyval \<Rightarrow> nat \<Rightarrow> exn + pyval" where
  "py_div (PNum x) n = Inr (PNum (x / of_nat n))"
| "py_div _ n = Inl TypeError"

text \<open>\<open>v[:n]\<close>: only a string can be sliced.\<close>

fun py_slice_to :: "pyval \<Rightarrow> nat \<Rightarrow> exn + pyval" where
  "py_slice_to (PStr s) n = Inr (PStr (take n s))"
| "py_slice_to _ n = Inl TypeError"

text \<open>
  An f-string is kept as its pieces: the literal text, a value rendered by \<open>str\<close>
  (\<open>{v}\<close>) and a number rendered with two decimals (\<open>{v:.2f}\<close>). The digits
  themselves are not modelled. The format \<open>.2f\<close> is refused by \<open>None\<close> (TypeError)
  and by a string (ValueError).
\<close>

datatype piece = Lit string | Str pyval | Fix2 rat

type_synonym ftext = "piece list"

fun fmt_2f :: "pyval \<Rightarrow> exn + piece" where
  "fmt_2f (PNum x) = Inr (Fix2 x)"
| "fmt_2f PNone = Inl TypeError"
| "fmt_2f (PStr s) = Inl ValueError"

text \<open>Sequencing of steps that may raise.\<close>

fun and_then :: "exn + 'a \<Rightarrow> ('a \<Rightarrow> exn + 'b) \<Rightarrow> exn + 'b" where
  "and_then (Inl e) f = Inl e"
| "and_then (Inr v) f = f v"

text \<open>\<open>try: body  except Exception: return dflt\<close>.\<close>

fun try_except :: "exn + 'a \<Rightarrow> 'a \<Rightarrow> exn + 'a" where
  "try_except (Inr v) dflt = Inr v"
| "try_except (Inl e) dflt = (if is_Exception e then Inr dflt else Inl e)"

text \<open>A dictionary is a map; \<open>d.get(k, dflt)\<close> and \<open>dict(pairs)\<close>.\<close>

type_synonym pydict = "string \<rightharpoonup> pyval"

definition dict_get :: "pydict \<Rightarrow> string \<Rightarrow> pyval \<Rightarrow> pyval" where
  "dict_get d k dflt = (case d k of None \<Rightarrow> dflt | Some v \<Rightarrow> v)"

definition dict :: "(string \<times> pyval) list \<Rightarrow> pydict" where
  "dict kvs = foldl (\<lambda>m kv. m(fst kv \<mapsto> snd kv)) Map.empty kvs"

text \<open>\<open>str.lower\<close> on ASCII text.\<close>

definition lower_char :: "char \<Rightarrow> char" where
  "lower_char c =
     (case map_of (zip ''ABCDEFGHIJKLMNOPQRSTUVWXYZ'' ''abcdefghijklmnopqrstuvwxyz'') c of
        None \<Rightarrow> c
      | Some l \<Rightarrow> l)"

definition lower :: "string \<Rightarrow> string" where
  "lower s = map lower_char s"

section \<open>The drivers and the database session\<close>

text \<open>
  The two driver libraries and the server behind them are outside the program.
  They are a parameter: what \<open>psycopg2.connect\<close> and \<open>pymysql.connect\<close> do,
  what running one of the program's SQL statements on a connection yields, and
  what \<open>close\<close> does to a connection. The statements are named after the SQL text
  the source holds.
\<close>

datatype handle = OpenConn | ClosedConn

datatype stmt =
    SlowQueriesPG | SlowQueriesMySQL
  | ActiveConnectionsPG | TotalConnectionsPG | DatabaseSizePG | CacheHitRatioPG
  | ActiveConnectionsMySQL | TotalConnectionsMySQL | DatabaseSizeMySQL

record response =
  description :: "string list"
  rows :: "pyval list list"

record env =
  psycopg2_connect :: "pydict \<Rightarrow> exn + handle"
  pymysql_connect :: "pydict \<Rightarrow> exn + handle"
  drv_execute :: "handle \<Rightarrow> stmt \<Rightarrow> exn + response"
  drv_close :: "handle \<Rightarrow> exn + handle"

section \<open>DatabaseMonitor\<close>

record monitor =
  conn_params :: pydict
  db_type :: string
  slow_query_threshold :: int
  connection :: "handle option"

definition init :: "pydict \<Rightarrow> string \<Rightarrow> monitor" where
  "init connection_params tag =
     \<lparr>conn_params = connection_params, db_type = lower tag,
      slow_query_threshold = 1000, connection = None\<rparr>"

text \<open>
  \<open>connect\<close>: the body of the \<open>try\<close> and its handler. The third component lists
  the driver calls made.
\<close>

definition connect_body :: "env \<Rightarrow> monitor \<Rightarrow> (exn + monitor) \<times> string list" where
  "connect_body E self =
     (if db_type self = ''postgresql'' then
        (case psycopg2_connect E (conn_params self) of
           Inl e \<Rightarrow> (Inl e, [''psycopg2.connect''])
         | Inr h \<Rightarrow> (Inr (self\<lparr>connection := Some h\<rparr>), [''psycopg2.connect'']))
      else if db_type self = ''mysql'' then
        (case pymysql_connect E (conn_params self) of
           Inl e \<Rightarrow> (Inl e, [''pymysql.connect''])
         | Inr h \<Rightarrow> (Inr (self\<lparr>connection := Some h\<rparr>), [''pymysql.connect'']))
      else (Inl ValueError, []))"

definition connect :: "env \<Rightarrow> monitor \<Rightarrow> (exn + bool) \<times> monitor \<times> string list" where
  "connect E self =
     (case connect_body E self of
        (Inr self', calls) \<Rightarrow> (Inr True, self', calls)
      | (Inl e, calls) \<Rightarrow> ((if is_Exception e then Inr False else Inl e), self, calls))"

text \<open>\<open>disconnect\<close>: the connection object stays in \<open>self.connection\<close> after the
  call.\<close>

definition disconnect :: "env \<Rightarrow> monitor \<Rightarrow> exn + monitor" where
  "disconnect E self =
     (case connection self of
        None \<Rightarrow> Inr self
      | Some h \<Rightarrow>
          (case drv_close E h of
             Inl e \<Rightarrow> Inl e
           | Inr h' \<Rightarrow> Inr (self\<lparr>connection := Some h'\<rparr>)))"

section \<open>The probes\<close>

text \<open>
  \<open>self.connection.cursor()\<close> on a monitor that was never connected is an
  attribute access on \<open>None\<close>. On a connection, opening the cursor, executing the
  statement and fetching are one step of the driver.
\<close>

definition cursor_execute :: "env \<Rightarrow> monitor \<Rightarrow> stmt \<Rightarrow> exn + response" where
  "cursor_execute E self q =
     (case connection self of
        None \<Rightarrow> Inl AttributeError
      | Some h \<Rightarrow> drv_execute E h q)"

definition get_slow_queries_postgresql :: "env \<Rightarrow> monitor \<Rightarrow> exn + pydict list" where
  "get_slow_queries_postgresql E self =
     try_except
       (and_then (cursor_execute E self SlowQueriesPG)
          (\<lambda>r. Inr (map (\<lambda>row. dict (zip (description r) row)) (rows r))))
       []"

text \<open>\<open>row[i]\<close> on a tuple.\<close>

definition index :: "pyval list \<Rightarrow> nat \<Rightarrow> exn + pyval" where
  "index row i = (if i < length row then Inr (row ! i) else Inl IndexError)"

definition mysql_record :: "pyval list \<Rightarrow> exn + pydict" where
  "mysql_record row =
     and_then (index row 0) (\<lambda>pid.
     and_then (index row 1) (\<lambda>usename.
     and_then (index row 2) (\<lambda>datname.
     and_then (and_then (index row 3) (\<lambda>t. py_mul t 1000)) (\<lambda>duration_ms.
     and_then (index row 4) (\<lambda>state.
     and_then (index row 5) (\<lambda>query_preview.
       Inr (Map.empty(''pid'' \<mapsto> pid, ''usename'' \<mapsto> usename, ''datname'' \<mapsto> datname,
              ''duration_ms'' \<mapsto> duration_ms, ''state'' \<mapsto> state,
              ''query_preview'' \<mapsto> query_preview))))))))"

fun mysql_records :: "pyval list list \<Rightarrow> exn + pydict list" where
  "mysql_records [] = Inr []"
| "mysql_records (row # results) =
     and_then (mysql_record row) (\<lambda>q.
     and_then (mysql_records results) (\<lambda>rest. Inr (q # rest)))"

definition get_slow_queries_mysql :: "env \<Rightarrow> monitor \<Rightarrow> exn + pydict list" where
  "get_slow_queries_mysql E self =
     try_except
       (and_then (cursor_execute E self SlowQueriesMySQL) (\<lambda>r. mysql_records (rows r)))
       []"

definition get_slow_queries :: "env \<Rightarrow> monitor \<Rightarrow> exn + pydict list" where
  "get_slow_queries E self =
     (if db_type self = ''postgresql'' then get_slow_queries_postgresql E self
      else if db_type self = ''mysql'' then get_slow_queries_mysql E self
      else Inr [])"

text \<open>The statistics statements, in the order of the source's dictionaries.\<close>

definition queries_postgresql :: "(string \<times> stmt) list" where
  "queries_postgresql =
     [(''active_connections'', ActiveConnectionsPG),
      (''total_connections'', TotalConnectionsPG),
      (''database_size'', DatabaseSizePG),
      (''cache_hit_ratio'', CacheHitRatioPG)]"

definition queries_mysql :: "(string \<times> stmt) list" where
  "queries_mysql =
     [(''active_connections'', ActiveConnectionsMySQL),
      (''total_connections'', TotalConnectionsMySQL),
      (''database_size'', DatabaseSizeMySQL)]"

text \<open>\<open>result = cur.fetchone(); result[0] if result else None\<close>.\<close>

definition first_column :: "response \<Rightarrow> pyval" where
  "first_column r =
     (case rows r of
        [] \<Rightarrow> PNone
      | result # _ \<Rightarrow> (case result of [] \<Rightarrow> PNone | v # _ \<Rightarrow> v))"

fun stats_loop :: "env \<Rightarrow> monitor \<Rightarrow> (string \<times> stmt) list \<Rightarrow> pydict \<Rightarrow> exn + pydict" where
  "stats_loop E self [] st = Inr st"
| "stats_loop E self ((stat_name, query) # rest) st =
     and_then (cursor_execute E self query)
       (\<lambda>r. stats_loop E self rest (st(stat_name \<mapsto> first_column r)))"

definition get_database_stats_postgresql :: "env \<Rightarrow> monitor \<Rightarrow> exn + pydict" where
  "get_database_stats_postgresql E self =
     try_except (stats_loop E self queries_postgresql Map.empty) Map.empty"

definition get_database_stats_mysql :: "env \<Rightarrow> monitor \<Rightarrow> exn + pydict" where
  "get_database_stats_mysql E self =
     try_except (stats_loop E self queries_mysql Map.empty) Map.empty"

definition get_database_stats :: "env \<Rightarrow> monitor \<Rightarrow> exn + pydict" where
  "get_database_stats E self =
     (if db_type self = ''postgresql'' then get_database_stats_postgresql E self
      else if db_type self = ''mysql'' then get_database_stats_mysql E self
      else Inr Map.empty)"

text \<open>
  The cache hit ratio statement of the source,
  \<^verbatim>\<open>ROUND(100 * sum(blks_hit) / NULLIF(sum(blks_hit) + sum(blks_read), 0), 2)\<close>,
  with SQL's NULL as \<open>None\<close>: an operator with a NULL operand is NULL, and a zero
  divisor is an error of the statement. The sums are \<open>numeric\<close>, so the division is
  not an integer division; it is taken exact here.
\<close>

definition NULLIF :: "rat \<Rightarrow> rat \<Rightarrow> rat option" where
  "NULLIF a b = (if a = b then None else Some a)"

definition sql_div :: "rat option \<Rightarrow> rat option \<Rightarrow> exn + rat option" where
  "sql_div a b =
     (case (a, b) of
        (Some x, Some y) \<Rightarrow> if y = 0 then Inl DriverError else Inr (Some (x / y))
      | _ \<Rightarrow> Inr None)"

definition ROUND2 :: "rat option \<Rightarrow> rat option" where
  "ROUND2 a =
     (case a of
        None \<Rightarrow> None
      | Some x \<Rightarrow> Some (sgn x * of_int \<lfloor>\<bar>x\<bar> * 100 + 1 / 2\<rfloor> / 100))"

definition cache_hit_ratio_sql :: "int \<Rightarrow> int \<Rightarrow> exn + response" where
  "cache_hit_ratio_sql blks_hit blks_read =
     and_then
       (sql_div (Some (100 * of_int blks_hit)) (NULLIF (of_int blks_hit + of_int blks_read) 0))
       (\<lambda>v. Inr \<lparr>description = [''round''],
                 rows = [[case ROUND2 v of None \<Rightarrow> PNone | Some x \<Rightarrow> PNum x]]\<rparr>)"

section \<open>check\_and\_alert\<close>

record alert =
  subject :: ftext
  message :: ftext

record summary =
  slow_queries_count :: nat
  slow_queries :: "pydict list"
  stats :: pydict

text \<open>
  The body of the loop over the slow queries. The two log lines format the
  duration with \<open>.2f\<close> and slice the preview before the threshold is looked at.
  The result is the alerts sent and the exception raised, if any.
\<close>

definition very_slow_alert :: "pyval \<Rightarrow> piece \<Rightarrow> pyval \<Rightarrow> alert" where
  "very_slow_alert pid secs preview =
     \<lparr>subject = [Lit ''Very Slow Query Detected (PID '', Str pid, Lit '')''],
      message = [Lit ''Query running for '', secs, Lit (''s:'' @ [CHR 0x0A]), Str preview]\<rparr>"

definition process_query :: "pydict \<Rightarrow> alert list \<times> exn option" where
  "process_query query =
     (let duration = dict_get query ''duration_ms'' (PNum 0);
          preview = dict_get query ''query_preview'' (PStr ''N/A'');
          pid = dict_get query ''pid'' (PStr ''N/A'')
      in case fmt_2f duration of
           Inl e \<Rightarrow> ([], Some e)
         | Inr _ \<Rightarrow>
        (case py_slice_to preview 80 of
           Inl e \<Rightarrow> ([], Some e)
         | Inr _ \<Rightarrow>
        (case py_gt duration 5000 of
           Inl e \<Rightarrow> ([], Some e)
         | Inr False \<Rightarrow> ([], None)
         | Inr True \<Rightarrow>
             (case and_then (py_div duration 1000) fmt_2f of
                Inl e \<Rightarrow> ([], Some e)
              | Inr secs \<Rightarrow> ([very_slow_alert pid secs preview], None)))))"

fun slow_query_loop :: "pydict list \<Rightarrow> alert list \<times> exn option" where
  "slow_query_loop [] = ([], None)"
| "slow_query_loop (query # rest) =
     (case process_query query of
        (sent, Some e) \<Rightarrow> (sent, Some e)
      | (sent, None) \<Rightarrow>
          (case slow_query_loop rest of (sent', r) \<Rightarrow> (sent @ sent', r)))"

definition check_connections :: "pydict \<Rightarrow> alert list \<times> exn option" where
  "check_connections st =
     (if truthy (dict_get st ''active_connections'' PNone) then
        (let active = dict_get st ''active_connections'' PNone
         in case py_gt active 100 of
              Inl e \<Rightarrow> ([], Some e)
            | Inr True \<Rightarrow>
                ([\<lparr>subject = [Lit ''High Active Connection Count''],
                   message = [Lit ''Active connections: '', Str active]\<rparr>], None)
            | Inr False \<Rightarrow> ([], None))
      else ([], None))"

definition check_cache_hit_ratio :: "pydict \<Rightarrow> alert list \<times> exn option" where
  "check_cache_hit_ratio st =
     (case st ''cache_hit_ratio'' of
        None \<Rightarrow> ([], None)
      | Some cache_ratio \<Rightarrow>
          if truthy cache_ratio then
            (case py_lt cache_ratio 95 of
               Inl e \<Rightarrow> ([], Some e)
             | Inr True \<Rightarrow>
                 ([\<lparr>subject = [Lit ''Low Cache Hit Ratio''],
                    message = [Lit ''Cache hit ratio: '', Str cache_ratio,
                               Lit ''% (should be > 95%)'']\<rparr>], None)
             | Inr False \<Rightarrow> ([], None))
          else ([], None))"

text \<open>
  \<open>check_and_alert\<close>: the alerts sent, in order, and either the exception that
  ended the call or the summary it returns. Alerts sent before an exception stay
  sent. The monitor object is not assigned to.
\<close>

definition check_and_alert :: "env \<Rightarrow> monitor \<Rightarrow> alert list \<times> (exn + summary)" where
  "check_and_alert E self =
     (case get_slow_queries E self of
        Inl e \<Rightarrow> ([], Inl e)
      | Inr qs \<Rightarrow>
     (case slow_query_loop qs of
        (a1, Some e) \<Rightarrow> (a1, Inl e)
      | (a1, None) \<Rightarrow>
     (case get_database_stats E self of
        Inl e \<Rightarrow> (a1, Inl e)
      | Inr st \<Rightarrow>
     (case check_connections st of
        (a2, Some e) \<Rightarrow> (a1 @ a2, Inl e)
      | (a2, None) \<Rightarrow>
     (case check_cache_hit_ratio st of
        (a3, Some e) \<Rightarrow> (a1 @ a2 @ a3, Inl e)
      | (a3, None) \<Rightarrow>
          (a1 @ a2 @ a3,
           Inr \<lparr>slow_queries_count = length qs, slow_queries = qs, stats = st\<rparr>))))))"

text \<open>The three kinds of finding, told apart by the subject line.\<close>

definition is_very_slow :: "alert \<Rightarrow> bool" where
  "is_very_slow a =
     (case subject a of
        Lit s # _ \<Rightarrow> s = ''Very Slow Query Detected (PID ''
      | _ \<Rightarrow> False)"

definition is_high_connections :: "alert \<Rightarrow> bool" where
  "is_high_connections a = (subject a = [Lit ''High Active Connection Count''])"

definition is_low_cache :: "alert \<Rightarrow> bool" where
  "is_low_cache a = (subject a = [Lit ''Low Cache Hit Ratio''])"

section \<open>The monitoring loop\<close>



section \<open>Example servers\<close>

text \<open>
  A PostgreSQL server reached through psycopg2, whose \<open>close\<close> may be repeated; a
  MySQL server reached through pymysql, whose \<open>close\<close> raises on a connection that
  is already closed; and a server on which every statement fails.
\<close>

definition pg_columns :: "string list" where
  "pg_columns = [''pid'', ''usename'', ''datname'', ''duration_ms'', ''state'',
                 ''wait_event_type'', ''wait_event'', ''query_preview'']"

definition pg_server :: "pyval list list \<Rightarrow> rat \<Rightarrow> int \<Rightarrow> int \<Rightarrow> env" where
  "pg_server slow active blks_hit blks_read =
     \<lparr>psycopg2_connect = (\<lambda>_. Inr OpenConn),
      pymysql_connect = (\<lambda>_. Inl DriverError),
      drv_execute = (\<lambda>h q.
        case h of
          ClosedConn \<Rightarrow> Inl DriverError
        | OpenConn \<Rightarrow>
            (case q of
               SlowQueriesPG \<Rightarrow> Inr \<lparr>description = pg_columns, rows = slow\<rparr>
             | ActiveConnectionsPG \<Rightarrow>
                 Inr \<lparr>description = [''count''], rows = [[PNum active]]\<rparr>
             | TotalConnectionsPG \<Rightarrow>
                 Inr \<lparr>description = [''count''], rows = [[PNum (active + 5)]]\<rparr>
             | DatabaseSizePG \<Rightarrow>
                 Inr \<lparr>description = [''pg_size_pretty''], rows = [[PStr ''8 MB'']]\<rparr>
             | CacheHitRatioPG \<Rightarrow> cache_hit_ratio_sql blks_hit blks_read
             | _ \<Rightarrow> Inl DriverError)),
      drv_close = (\<lambda>_. Inr ClosedConn)\<rparr>"

definition mysql_server :: "pyval list list \<Rightarrow> rat \<Rightarrow> env" where
  "mysql_server slow active =
     \<lparr>psycopg2_connect = (\<lambda>_. Inl DriverError),
      pymysql_connect = (\<lambda>_. Inr OpenConn),
      drv_execute = (\<lambda>h q.
        case h of
          ClosedConn \<Rightarrow> Inl DriverError
        | OpenConn \<Rightarrow>
            (case q of
               SlowQueriesMySQL \<Rightarrow> Inr \<lparr>description = [], rows = slow\<rparr>
             | ActiveConnectionsMySQL \<Rightarrow> Inr \<lparr>description = [], rows = [[PNum active]]\<rparr>
             | TotalConnectionsMySQL \<Rightarrow>
                 Inr \<lparr>description = [], rows = [[PNum (active + 5)]]\<rparr>
             | DatabaseSizeMySQL \<Rightarrow> Inr \<lparr>description = [], rows = [[PStr ''12.50 MB'']]\<rparr>
             | _ \<Rightarrow> Inl DriverError)),
      drv_close = (\<lambda>h. case h of OpenConn \<Rightarrow> Inr ClosedConn | ClosedConn \<Rightarrow> Inl DriverError)\<rparr>"

definition broken_server :: env where
  "broken_server =
     \<lparr>psycopg2_connect = (\<lambda>_. Inr OpenConn),
      pymysql_connect = (\<lambda>_. Inr OpenConn),
      drv_execute = (\<lambda>h q. Inl DriverError),
      drv_close = (\<lambda>_. Inr ClosedConn)\<rparr>"

text \<open>A monitor built for a dialect tag and holding an open connection.\<close>

definition connected_monitor :: "string \<Rightarrow> monitor" where
  "connected_monitor tag = (init Map.empty tag)\<lparr>connection := Some OpenConn\<rparr>"

text \<open>
  Rows of the MySQL process list: two running statements, and the event scheduler
  thread, whose \<open>Info\<close> column is NULL.
\<close>

definition two_mysql_rows :: "pyval list list" where
  "two_mysql_rows =
     [[PNum 17, PStr ''report'', PStr ''shop'', PNum 6, PStr ''Sending data'',
       PStr ''SELECT * FROM orders''],
      [PNum 21, PStr ''app'', PStr ''shop'', PNum 2, PStr ''updating'',
       PStr ''UPDATE stock SET n = n - 1'']]"

definition event_scheduler_row :: "pyval list" where
  "event_scheduler_row =
     [PNum 5, PStr ''event_scheduler'', PNone, PNum 6, PStr ''Waiting on empty queue'', PNone]"

text \<open>A server on which one statement fails and the others answer as before.\<close>

definition failing_on :: "stmt \<Rightarrow> env \<Rightarrow> env" where
  "failing_on q E =
     E\<lparr>drv_execute := (\<lambda>h q'. if q' = q then Inl DriverError else drv_execute E h q')\<rparr>"

definition pg_slow_row :: "pyval list" where
  "pg_slow_row =
     [PNum 4711, PStr ''app'', PStr ''shop'', PNum 6000, PStr ''active'', PNone, PNone,
      PStr ''SELECT pg_sleep(10)'']"



section \<open>Basic facts\<close>

lemma connected_monitor_db_type:
  "db_type (connected_monitor ''postgresql'') = ''postgresql''"
  "db_type (connected_monitor ''mysql'') = ''mysql''"
  "db_type (connected_monitor ''oracle'') = ''oracle''"
  by (simp_all add: connected_monitor_def init_def lower_def lower_char_def)

lemma connected_monitor_connection: "connection (connected_monitor tag) = Some OpenConn"
  by (simp add: connected_monitor_def)

lemma lower_mixed_case: "lower ''PostgreSQL'' = ''postgresql''"
  by (simp add: lower_def lower_char_def)

text \<open>Each phase of \<open>check_and_alert\<close> sends findings of its own kind only.\<close>

lemma process_query_kinds:
  "a \<in> set (fst (process_query q)) \<Longrightarrow>
     is_very_slow a \<and> \<not> is_high_connections a \<and> \<not> is_low_cache a"
  by (auto simp: process_query_def Let_def very_slow_alert_def is_very_slow_def
        is_high_connections_def is_low_cache_def split: sum.splits bool.splits if_splits)

lemma slow_query_loop_kinds:
  "a \<in> set (fst (slow_query_loop qs)) \<Longrightarrow>
     is_very_slow a \<and> \<not> is_high_connections a \<and> \<not> is_low_cache a"
proof (induction qs)
  case Nil
  then show ?case by simp
next
  case (Cons q qs)
  then show ?case
    using process_query_kinds [of a q]
    by (auto split: prod.splits option.splits)
qed

lemma check_connections_kinds:
  "a \<in> set (fst (check_connections st)) \<Longrightarrow>
     is_high_connections a \<and> \<not> is_very_slow a \<and> \<not> is_low_cache a"
  by (auto simp: check_connections_def Let_def is_very_slow_def
        is_high_connections_def is_low_cache_def split: sum.splits bool.splits if_splits)

lemma check_cache_hit_ratio_kinds:
  "a \<in> set (fst (check_cache_hit_ratio st)) \<Longrightarrow>
     is_low_cache a \<and> \<not> is_very_slow a \<and> \<not> is_high_connections a"
  by (auto simp: check_cache_hit_ratio_def Let_def is_very_slow_def
        is_high_connections_def is_low_cache_def
        split: sum.splits bool.splits if_splits option.splits)

lemma filter_none: "(\<And>a. a \<in> set xs \<Longrightarrow> \<not> P a) \<Longrightarrow> filter P xs = []"
  by (simp add: filter_empty_conv)

text \<open>What a call sends and returns once both probes have returned and the loop
  over the slow queries has ended without an exception.\<close>

lemma check_and_alert_sent:
  assumes "get_slow_queries E self = Inr qs" and "slow_query_loop qs = (a1, None)"
    and "get_database_stats E self = Inr st"
  shows "fst (check_and_alert E self) =
           a1 @ fst (check_connections st) @
           (if snd (check_connections st) = None then fst (check_cache_hit_ratio st) else [])"
  using assms
  by (simp add: check_and_alert_def split: prod.splits option.splits)

lemma check_and_alert_returns:
  assumes "get_slow_queries E self = Inr qs" and "slow_query_loop qs = (a1, None)"
    and "get_database_stats E self = Inr st"
    and "snd (check_connections st) = None" and "snd (check_cache_hit_ratio st) = None"
  shows "snd (check_and_alert E self) =
           Inr \<lparr>slow_queries_count = length qs, slow_queries = qs, stats = st\<rparr>"
  using assms
  by (cases "check_connections st"; cases "check_cache_hit_ratio st")
     (simp add: check_and_alert_def)

lemma empty_results_no_findings:
  assumes "get_slow_queries E self = Inr []" and "get_database_stats E self = Inr Map.empty"
  shows "check_and_alert E self =
           ([], Inr \<lparr>slow_queries_count = 0, slow_queries = [], stats = Map.empty\<rparr>)"
  using assms
  by (simp add: check_and_alert_def check_connections_def check_cache_hit_ratio_def dict_get_def)

section \<open>The threshold rules\<close>

lemma high_connections_count:
  "st ''active_connections'' = Some v \<Longrightarrow>
   length (filter is_high_connections (fst (check_connections st))) =
     (case v of PNum x \<Rightarrow> if 100 < x then 1 else 0 | _ \<Rightarrow> 0)"
  by (cases v) (auto simp: check_connections_def dict_get_def is_high_connections_def)

lemma low_cache_count:
  "length (filter is_low_cache (fst (check_cache_hit_ratio st))) =
     (case st ''cache_hit_ratio'' of
        Some (PNum x) \<Rightarrow> if x \<noteq> 0 \<and> x < 95 then 1 else 0
      | _ \<Rightarrow> 0)"
  by (auto simp: check_cache_hit_ratio_def is_low_cache_def split: option.splits pyval.splits)

text \<open>
  The cache rule as the code has it: one finding for a ratio below 95 that is not
  zero, none for a ratio of zero, for \<open>None\<close> and for a missing key.
\<close>

lemma low_cache_alert_rule:
  assumes "get_slow_queries E self = Inr qs" and "slow_query_loop qs = (a1, None)"
    and "get_database_stats E self = Inr st"
    and "snd (check_connections st) = None"
  shows "length (filter is_low_cache (fst (check_and_alert E self))) =
           (case st ''cache_hit_ratio'' of
              Some (PNum x) \<Rightarrow> if x \<noteq> 0 \<and> x < 95 then 1 else 0
            | _ \<Rightarrow> (0::nat))"
proof -
  have a1: "filter is_low_cache a1 = []"
    using slow_query_loop_kinds [of _ qs] assms(2) by (intro filter_none) auto
  have a2: "filter is_low_cache (fst (check_connections st)) = []"
    using check_connections_kinds [of _ st] by (intro filter_none) auto
  show ?thesis
    using low_cache_count [of st] a1 a2 assms(4)
    by (simp add: check_and_alert_sent [OF assms(1-3)])
qed

text \<open>
  The slow query rule on a record whose duration is a number and whose preview is
  a string: a finding exactly when the duration exceeds 5000, naming the process id
  and the duration divided by 1000.
\<close>

lemma very_slow_query_rule:
  assumes "q ''duration_ms'' = Some (PNum d)" and "q ''query_preview'' = Some (PStr p)"
  shows "process_query q =
           ((if 5000 < d
             then [very_slow_alert (dict_get q ''pid'' (PStr ''N/A'')) (Fix2 (d / 1000)) (PStr p)]
             else []), None)"
  using assms by (simp add: process_query_def dict_get_def)

lemma very_slow_query_boundary:
  "process_query (Map.empty(''pid'' \<mapsto> PNum 7, ''duration_ms'' \<mapsto> PNum 5000,
      ''query_preview'' \<mapsto> PStr ''SELECT 1'')) = ([], None)"
  "process_query (Map.empty(''pid'' \<mapsto> PNum 7, ''duration_ms'' \<mapsto> PNum (500001 / 100),
      ''query_preview'' \<mapsto> PStr ''SELECT 1'')) =
     ([very_slow_alert (PNum 7) (Fix2 (500001 / 100000)) (PStr ''SELECT 1'')], None)"
  by (simp_all add: process_query_def dict_get_def)

section \<open>Probe failures\<close>

lemma stats_loop_fails:
  assumes "connection self = Some h" and "q \<in> snd ` set qs" and "isl (drv_execute E h q)"
  shows "isl (stats_loop E self qs st)"
  using assms(2)
proof (induction qs arbitrary: st)
  case Nil
  then show ?case by simp
next
  case (Cons nq qs)
  obtain n q' where nq: "nq = (n, q')" by (cases nq)
  show ?case
  proof (cases "drv_execute E h q'")
    case (Inl e)
    then show ?thesis using assms(1) nq by (simp add: cursor_execute_def)
  next
    case (Inr r)
    then have "q \<noteq> q'" using assms(3) by auto
    then have "q \<in> snd ` set qs" using Cons.prems nq by auto
    then show ?thesis using Cons.IH Inr assms(1) nq by (simp add: cursor_execute_def)
  qed
qed

lemma stats_loop_error:
  assumes "connection self = Some h" and "stats_loop E self qs st = Inl e"
  shows "\<exists>q. drv_execute E h q = Inl e"
  using assms(2)
proof (induction qs arbitrary: st)
  case Nil
  then show ?case by simp
next
  case (Cons nq qs)
  obtain n q' where nq: "nq = (n, q')" by (cases nq)
  show ?case
  proof (cases "drv_execute E h q'")
    case (Inl e')
    then show ?thesis using Cons.prems assms(1) nq by (auto simp: cursor_execute_def)
  next
    case (Inr r)
    then show ?thesis using Cons assms(1) nq by (simp add: cursor_execute_def)
  qed
qed

lemma try_except_absorbs:
  assumes "\<And>e. body = Inl e \<Longrightarrow> is_Exception e"
  shows "try_except body dflt = (case body of Inl e \<Rightarrow> Inr dflt | Inr v \<Rightarrow> Inr v)"
  using assms by (cases body) auto

lemma stats_probe_absorbs:
  assumes "connection self = Some h"
    and "\<forall>q e. drv_execute E h q = Inl e \<longrightarrow> is_Exception e"
  shows "try_except (stats_loop E self qs Map.empty) Map.empty =
           (case stats_loop E self qs Map.empty of Inl e \<Rightarrow> Inr Map.empty | Inr v \<Rightarrow> Inr v)"
  using stats_loop_error [OF assms(1)] assms(2)
  by (intro try_except_absorbs) blast

lemma mysql_record_error: "mysql_record row = Inl e \<Longrightarrow> is_Exception e"
  by (cases "row ! 3")
     (auto simp: mysql_record_def index_def split: if_splits)

lemma mysql_records_error: "mysql_records rs = Inl e \<Longrightarrow> is_Exception e"
proof (induction rs)
  case Nil
  then show ?case by simp
next
  case (Cons row rs)
  then show ?case
    using mysql_record_error [of row e]
    by (cases "mysql_record row"; cases "mysql_records rs") auto
qed

lemma slow_pg_absorbs:
  assumes "connection self = Some h"
    and "\<forall>q e. drv_execute E h q = Inl e \<longrightarrow> is_Exception e"
  shows "get_slow_queries_postgresql E self =
           (case drv_execute E h SlowQueriesPG of
              Inl e \<Rightarrow> Inr []
            | Inr r \<Rightarrow> Inr (map (\<lambda>row. dict (zip (description r) row)) (rows r)))"
  using assms
  by (cases "drv_execute E h SlowQueriesPG")
     (auto simp: get_slow_queries_postgresql_def cursor_execute_def)

lemma slow_mysql_absorbs:
  assumes "connection self = Some h"
    and "\<forall>q e. drv_execute E h q = Inl e \<longrightarrow> is_Exception e"
  shows "get_slow_queries_mysql E self =
           (case drv_execute E h SlowQueriesMySQL of
              Inl e \<Rightarrow> Inr []
            | Inr r \<Rightarrow> (case mysql_records (rows r) of Inl e \<Rightarrow> Inr [] | Inr qs \<Rightarrow> Inr qs))"
proof (cases "drv_execute E h SlowQueriesMySQL")
  case (Inl e)
  then show ?thesis using assms
    by (auto simp: get_slow_queries_mysql_def cursor_execute_def)
next
  case (Inr r)
  then show ?thesis using assms(1) mysql_records_error [of "rows r"]
    by (cases "mysql_records (rows r)")
       (auto simp: get_slow_queries_mysql_def cursor_execute_def)
qed

text \<open>
  A cycle after a probe that returned nothing: with no slow queries the outcome is
  that of the statistics alone, with no statistics that of the slow queries alone.
  An exception that ends a cycle is raised while the returned data is looked at.
\<close>

lemma slow_probe_empty_cycle:
  assumes "get_slow_queries E self = Inr []" and "get_database_stats E self = Inr st"
  shows "check_and_alert E self =
           (fst (check_connections st) @
              (if snd (check_connections st) = None then fst (check_cache_hit_ratio st) else []),
            (case snd (check_connections st) of
               Some e \<Rightarrow> Inl e
             | None \<Rightarrow>
                 (case snd (check_cache_hit_ratio st) of
                    Some e \<Rightarrow> Inl e
                  | None \<Rightarrow> Inr \<lparr>slow_queries_count = 0, slow_queries = [], stats = st\<rparr>)))"
  using assms
  by (cases "check_connections st"; cases "check_cache_hit_ratio st")
     (auto simp: check_and_alert_def split: option.splits)

lemma stats_probe_empty_cycle:
  assumes "get_slow_queries E self = Inr qs" and "get_database_stats E self = Inr Map.empty"
  shows "check_and_alert E self =
           (fst (slow_query_loop qs),
            (case snd (slow_query_loop qs) of
               Some e \<Rightarrow> Inl e
             | None \<Rightarrow> Inr \<lparr>slow_queries_count = length qs, slow_queries = qs,
                              stats = Map.empty\<rparr>))"
  using assms
  by (cases "slow_query_loop qs")
     (auto simp: check_and_alert_def check_connections_def check_cache_hit_ratio_def dict_get_def
        split: option.splits)

lemma abort_comes_from_evaluation:
  assumes "get_slow_queries E self = Inr qs" and "get_database_stats E self = Inr st"
    and "snd (check_and_alert E self) = Inl e"
  shows "snd (slow_query_loop qs) = Some e \<or> snd (check_connections st) = Some e
         \<or> snd (check_cache_hit_ratio st) = Some e"
  using assms
  by (cases "slow_query_loop qs"; cases "check_connections st"; cases "check_cache_hit_ratio st")
     (auto simp: check_and_alert_def split: option.splits)

section \<open>The MySQL slow query records\<close>

lemma mysql_record_duration:
  assumes "6 \<le> length row" and "row ! 3 = PNum t"
  shows "\<exists>q. mysql_record row = Inr q \<and> q ''duration_ms'' = Some (PNum (t * 1000))"
proof -
  have idx: "index row i = Inr (row ! i)" if "i < 6" for i
    using that assms(1) by (simp add: index_def)
  show ?thesis
    by (simp add: mysql_record_def idx assms(2))
qed

lemma mysql_records_duration:
  assumes "\<forall>row \<in> set rs. 6 \<le> length row \<and> (\<exists>t. row ! 3 = PNum t)"
  shows "\<exists>qs. mysql_records rs = Inr qs \<and>
           list_all2 (\<lambda>row q. \<exists>t. row ! 3 = PNum t \<and> q ''duration_ms'' = Some (PNum (t * 1000)))
             rs qs"
  using assms
proof (induction rs)
  case Nil
  then show ?case by simp
next
  case (Cons row rs)
  then obtain t where t: "6 \<le> length row" "row ! 3 = PNum t" by auto
  obtain q where q: "mysql_record row = Inr q" "q ''duration_ms'' = Some (PNum (t * 1000))"
    using mysql_record_duration [OF t] by blast
  obtain qs where qs: "mysql_records rs = Inr qs"
    "list_all2 (\<lambda>row q. \<exists>t. row ! 3 = PNum t \<and> q ''duration_ms'' = Some (PNum (t * 1000))) rs qs"
    using Cons by auto
  show ?case using t q qs by simp
qed

section \<open>The cache hit ratio statement\<close>

lemma cache_hit_ratio_sql_zero:
  "cache_hit_ratio_sql 0 0 = Inr \<lparr>description = [''round''], rows = [[PNone]]\<rparr>"
  by (simp add: cache_hit_ratio_sql_def sql_div_def NULLIF_def ROUND2_def)

section \<open>Cycles of the loop\<close>



section \<open>The claims\<close>

text \<open>
  C1. A cache hit ratio strictly below 95 is to give exactly one "Low Cache Hit
  Ratio" finding. The guard \<open>cache_ratio and cache_ratio < 95\<close> tests the truth value
  of the ratio first, and a ratio of zero is false: on a database with no buffer
  hits and ten reads the statement yields 0, the call returns normally with
  \<open>cache_hit_ratio\<close> = 0 in its summary, and no finding is sent.
\<close>

theorem zero_cache_hit_ratio_sends_no_alert:
  "drv_execute (pg_server [] 3 0 10) OpenConn CacheHitRatioPG =
     Inr \<lparr>description = [''round''], rows = [[PNum 0]]\<rparr>
   \<and> fst (check_and_alert (pg_server [] 3 0 10) (connected_monitor ''postgresql'')) = []
   \<and> (case snd (check_and_alert (pg_server [] 3 0 10) (connected_monitor ''postgresql'')) of
        Inl e \<Rightarrow> False
      | Inr s \<Rightarrow> stats s ''cache_hit_ratio'' = Some (PNum 0))"
  by (simp add: check_and_alert_def get_slow_queries_def get_slow_queries_postgresql_def
        get_database_stats_def get_database_stats_postgresql_def cursor_execute_def
        connected_monitor_db_type connected_monitor_connection
        pg_server_def queries_postgresql_def first_column_def
        cache_hit_ratio_sql_def sql_div_def NULLIF_def ROUND2_def
        check_connections_def check_cache_hit_ratio_def dict_get_def)

text \<open>
  C2. For a monitor whose dialect tag is neither \<open>postgresql\<close> nor \<open>mysql\<close>,
  \<open>connect\<close> makes no driver call and leaves the monitor as it was; the
  \<open>ValueError\<close> it raises is caught by its own handler, and the call returns
  \<open>False\<close>.
\<close>

theorem unsupported_dialect_connect:
  assumes "db_type self \<noteq> ''postgresql''" and "db_type self \<noteq> ''mysql''"
  shows "connect E self = (Inr False, self, [])"
  using assms by (simp add: connect_def connect_body_def)

theorem unsupported_dialect_connect_witness:
  "connect (pg_server [] 3 99 1) (init Map.empty ''Oracle'') =
     (Inr False, init Map.empty ''Oracle'', [])"
proof -
  have "db_type (init Map.empty ''Oracle'') = ''oracle''"
    by (simp add: init_def lower_def lower_char_def)
  then show ?thesis
    using unsupported_dialect_connect [of "init Map.empty ''Oracle''" "pg_server [] 3 99 1"]
    by simp
qed

text \<open>
  C2 as the specification words it does not hold: no error reaches the caller for
  an unsupported dialect. \<open>connect\<close> returns \<open>False\<close>, the value it also returns
  when the driver refuses the connection.
\<close>

theorem unsupported_dialect_not_raised:
  "fst (connect (pg_server [] 3 99 1) (init Map.empty ''oracle'')) = Inr False
   \<and> fst (connect (pg_server [] 3 99 1) (init Map.empty ''mysql'')) = Inr False"
  by (simp add: connect_def connect_body_def init_def lower_def lower_char_def pg_server_def)

text \<open>
  C3. A failure of the driver inside a probe is caught there: the slow query probe
  returns the empty list and the statistics probe the empty mapping, and neither
  probe propagates an exception. The cycle goes on: when the slow query probe has
  failed, \<open>check_and_alert\<close> probes and evaluates the statistics as a cycle without
  slow queries does; when the statistics probe has failed, it ends as a cycle
  without statistics does. An exception that ends a cycle is raised by the
  evaluation of data a probe returned, never by a probe. Over empty results
  \<open>check_and_alert\<close> sends nothing and returns its summary. The driver's failures
  are exceptions that \<open>except Exception\<close> catches.
\<close>

theorem probe_failure_is_absorbed:
  assumes "connection self = Some h"
    and "\<forall>q e. drv_execute E h q = Inl e \<longrightarrow> is_Exception e"
  shows "(isl (drv_execute E h SlowQueriesPG) \<longrightarrow> get_slow_queries_postgresql E self = Inr [])
       \<and> (isl (drv_execute E h SlowQueriesMySQL) \<longrightarrow> get_slow_queries_mysql E self = Inr [])
       \<and> ((\<exists>q \<in> snd ` set queries_postgresql. isl (drv_execute E h q)) \<longrightarrow>
            get_database_stats_postgresql E self = Inr Map.empty)
       \<and> ((\<exists>q \<in> snd ` set queries_mysql. isl (drv_execute E h q)) \<longrightarrow>
            get_database_stats_mysql E self = Inr Map.empty)
       \<and> (\<exists>qs st. get_slow_queries E self = Inr qs \<and> get_database_stats E self = Inr st
            \<and> (\<forall>e. snd (check_and_alert E self) = Inl e \<longrightarrow>
                  snd (slow_query_loop qs) = Some e \<or> snd (check_connections st) = Some e
                  \<or> snd (check_cache_hit_ratio st) = Some e))
       \<and> (db_type self = ''postgresql'' \<and> isl (drv_execute E h SlowQueriesPG)
            \<or> db_type self = ''mysql'' \<and> isl (drv_execute E h SlowQueriesMySQL) \<longrightarrow>
            (\<exists>st. get_database_stats E self = Inr st \<and>
               check_and_alert E self =
                 (fst (check_connections st) @
                    (if snd (check_connections st) = None then fst (check_cache_hit_ratio st)
                     else []),
                  (case snd (check_connections st) of
                     Some e \<Rightarrow> Inl e
                   | None \<Rightarrow>
                       (case snd (check_cache_hit_ratio st) of
                          Some e \<Rightarrow> Inl e
                        | None \<Rightarrow>
                            Inr \<lparr>slow_queries_count = 0, slow_queries = [], stats = st\<rparr>)))))
       \<and> (db_type self = ''postgresql''
              \<and> (\<exists>q \<in> snd ` set queries_postgresql. isl (drv_execute E h q))
            \<or> db_type self = ''mysql''
              \<and> (\<exists>q \<in> snd ` set queries_mysql. isl (drv_execute E h q)) \<longrightarrow>
            (\<exists>qs. get_slow_queries E self = Inr qs \<and>
               check_and_alert E self =
                 (fst (slow_query_loop qs),
                  (case snd (slow_query_loop qs) of
                     Some e \<Rightarrow> Inl e
                   | None \<Rightarrow> Inr \<lparr>slow_queries_count = length qs, slow_queries = qs,
                                    stats = Map.empty\<rparr>))))
       \<and> (get_slow_queries E self = Inr [] \<and> get_database_stats E self = Inr Map.empty \<longrightarrow>
            check_and_alert E self =
              ([], Inr \<lparr>slow_queries_count = 0, slow_queries = [], stats = Map.empty\<rparr>))
       \<and> ((\<forall>q. isl (drv_execute E h q)) \<longrightarrow>
            check_and_alert E self =
              ([], Inr \<lparr>slow_queries_count = 0, slow_queries = [], stats = Map.empty\<rparr>))"
proof -
  note pg = slow_pg_absorbs [OF assms]
  note my = slow_mysql_absorbs [OF assms]
  note st = stats_probe_absorbs [OF assms]
  have c1: "isl (drv_execute E h SlowQueriesPG) \<longrightarrow> get_slow_queries_postgresql E self = Inr []"
    by (cases "drv_execute E h SlowQueriesPG") (simp_all add: pg)
  have c2: "isl (drv_execute E h SlowQueriesMySQL) \<longrightarrow> get_slow_queries_mysql E self = Inr []"
    by (cases "drv_execute E h SlowQueriesMySQL") (simp_all add: my)
  have stats_fail: "get_database_stats_postgresql E self = Inr Map.empty"
    if "\<exists>q \<in> snd ` set queries_postgresql. isl (drv_execute E h q)"
  proof -
    from that obtain q where "q \<in> snd ` set queries_postgresql" "isl (drv_execute E h q)"
      by blast
    then have "isl (stats_loop E self queries_postgresql Map.empty)"
      using stats_loop_fails [OF assms(1)] by blast
    then show ?thesis
      unfolding get_database_stats_postgresql_def st
      by (cases "stats_loop E self queries_postgresql Map.empty") simp_all
  qed
  have stats_fail_my: "get_database_stats_mysql E self = Inr Map.empty"
    if "\<exists>q \<in> snd ` set queries_mysql. isl (drv_execute E h q)"
  proof -
    from that obtain q where "q \<in> snd ` set queries_mysql" "isl (drv_execute E h q)"
      by blast
    then have "isl (stats_loop E self queries_mysql Map.empty)"
      using stats_loop_fails [OF assms(1)] by blast
    then show ?thesis
      unfolding get_database_stats_mysql_def st
      by (cases "stats_loop E self queries_mysql Map.empty") simp_all
  qed
  have "\<exists>qs. get_slow_queries E self = Inr qs"
    by (auto simp: get_slow_queries_def pg my split: sum.splits)
  then obtain qs where qs: "get_slow_queries E self = Inr qs" by blast
  have "\<exists>s. get_database_stats E self = Inr s"
    unfolding get_database_stats_def get_database_stats_postgresql_def
      get_database_stats_mysql_def st
    by (auto split: sum.splits)
  then obtain s where s: "get_database_stats E self = Inr s" by blast
  have c5: "\<exists>qs st. get_slow_queries E self = Inr qs \<and> get_database_stats E self = Inr st
            \<and> (\<forall>e. snd (check_and_alert E self) = Inl e \<longrightarrow>
                  snd (slow_query_loop qs) = Some e \<or> snd (check_connections st) = Some e
                  \<or> snd (check_cache_hit_ratio st) = Some e)"
    using qs s abort_comes_from_evaluation [OF qs s] by blast
  have c6: "\<exists>st. get_database_stats E self = Inr st \<and>
               check_and_alert E self =
                 (fst (check_connections st) @
                    (if snd (check_connections st) = None then fst (check_cache_hit_ratio st)
                     else []),
                  (case snd (check_connections st) of
                     Some e \<Rightarrow> Inl e
                   | None \<Rightarrow>
                       (case snd (check_cache_hit_ratio st) of
                          Some e \<Rightarrow> Inl e
                        | None \<Rightarrow>
                            Inr \<lparr>slow_queries_count = 0, slow_queries = [], stats = st\<rparr>)))"
    if "db_type self = ''postgresql'' \<and> isl (drv_execute E h SlowQueriesPG)
            \<or> db_type self = ''mysql'' \<and> isl (drv_execute E h SlowQueriesMySQL)"
  proof -
    have "get_slow_queries E self = Inr []"
      using that c1 c2 by (auto simp: get_slow_queries_def)
    then show ?thesis
      using slow_probe_empty_cycle [OF _ s] s by blast
  qed
  have c7: "\<exists>qs. get_slow_queries E self = Inr qs \<and>
               check_and_alert E self =
                 (fst (slow_query_loop qs),
                  (case snd (slow_query_loop qs) of
                     Some e \<Rightarrow> Inl e
                   | None \<Rightarrow> Inr \<lparr>slow_queries_count = length qs, slow_queries = qs,
                                    stats = Map.empty\<rparr>))"
    if "db_type self = ''postgresql''
              \<and> (\<exists>q \<in> snd ` set queries_postgresql. isl (drv_execute E h q))
            \<or> db_type self = ''mysql''
              \<and> (\<exists>q \<in> snd ` set queries_mysql. isl (drv_execute E h q))"
  proof -
    have "get_database_stats E self = Inr Map.empty"
      using that stats_fail stats_fail_my by (auto simp: get_database_stats_def)
    then show ?thesis
      using stats_probe_empty_cycle [OF qs] qs by blast
  qed
  have c8: "get_slow_queries E self = Inr [] \<and> get_database_stats E self = Inr Map.empty \<longrightarrow>
            check_and_alert E self =
              ([], Inr \<lparr>slow_queries_count = 0, slow_queries = [], stats = Map.empty\<rparr>)"
    using empty_results_no_findings by blast
  have c9: "check_and_alert E self =
              ([], Inr \<lparr>slow_queries_count = 0, slow_queries = [], stats = Map.empty\<rparr>)"
    if all: "\<forall>q. isl (drv_execute E h q)"
  proof -
    have q: "get_slow_queries E self = Inr []"
      using c1 c2 all by (simp add: get_slow_queries_def)
    have "get_database_stats_postgresql E self = Inr Map.empty"
      using all by (intro stats_fail) (auto simp: queries_postgresql_def)
    moreover have "get_database_stats_mysql E self = Inr Map.empty"
      using all by (intro stats_fail_my) (auto simp: queries_mysql_def)
    ultimately have s: "get_database_stats E self = Inr Map.empty"
      by (simp add: get_database_stats_def)
    show ?thesis using empty_results_no_findings [OF q s] .
  qed
  show ?thesis
    using c1 c2 stats_fail stats_fail_my c5 c6 c7 c8 c9 by blast
qed

theorem probe_failure_is_absorbed_witness:
  "get_slow_queries_postgresql broken_server (connected_monitor ''postgresql'') = Inr []
   \<and> get_database_stats_postgresql broken_server (connected_monitor ''postgresql'') = Inr Map.empty
   \<and> check_and_alert broken_server (connected_monitor ''postgresql'') =
       ([], Inr \<lparr>slow_queries_count = 0, slow_queries = [], stats = Map.empty\<rparr>)
   \<and> (\<exists>st. get_database_stats (failing_on SlowQueriesPG (pg_server [pg_slow_row] 101 0 0))
              (connected_monitor ''postgresql'') = Inr st
         \<and> check_and_alert (failing_on SlowQueriesPG (pg_server [pg_slow_row] 101 0 0))
              (connected_monitor ''postgresql'') =
             ([\<lparr>subject = [Lit ''High Active Connection Count''],
                message = [Lit ''Active connections: '', Str (PNum 101)]\<rparr>],
              Inr \<lparr>slow_queries_count = 0, slow_queries = [], stats = st\<rparr>))
   \<and> (\<exists>qs. get_slow_queries (failing_on CacheHitRatioPG (pg_server [pg_slow_row] 101 0 0))
              (connected_monitor ''postgresql'') = Inr qs
         \<and> check_and_alert (failing_on CacheHitRatioPG (pg_server [pg_slow_row] 101 0 0))
              (connected_monitor ''postgresql'') =
             ([very_slow_alert (PNum 4711) (Fix2 6) (PStr ''SELECT pg_sleep(10)'')],
              Inr \<lparr>slow_queries_count = length qs, slow_queries = qs, stats = Map.empty\<rparr>))"
proof -
  let ?m = "connected_monitor ''postgresql''"
  let ?E1 = "failing_on SlowQueriesPG (pg_server [pg_slow_row] 101 0 0)"
  let ?E2 = "failing_on CacheHitRatioPG (pg_server [pg_slow_row] 101 0 0)"
  note db = connected_monitor_db_type(1)
  note conn = connected_monitor_connection [of "''postgresql''"]
  have ex: "drv_execute broken_server h q = Inl DriverError" for h q
    by (simp add: broken_server_def)
  have cls: "\<forall>q e. drv_execute broken_server OpenConn q = Inl e \<longrightarrow> is_Exception e"
    by (auto simp: ex)
  have q4: "CacheHitRatioPG \<in> snd ` set queries_postgresql"
    by (simp add: queries_postgresql_def)
  have all_fail:
    "get_slow_queries_postgresql broken_server ?m = Inr []
     \<and> get_database_stats_postgresql broken_server ?m = Inr Map.empty
     \<and> check_and_alert broken_server ?m =
         ([], Inr \<lparr>slow_queries_count = 0, slow_queries = [], stats = Map.empty\<rparr>)"
    using probe_failure_is_absorbed [OF conn cls] q4
    by (auto simp: ex)
  have cls1: "\<forall>q e. drv_execute ?E1 OpenConn q = Inl e \<longrightarrow> is_Exception e"
    by (auto simp: failing_on_def pg_server_def cache_hit_ratio_sql_def sql_div_def NULLIF_def
          split: stmt.splits if_splits)
  have f1: "isl (drv_execute ?E1 OpenConn SlowQueriesPG)"
    by (simp add: failing_on_def)
  have st1: "get_database_stats ?E1 ?m =
      Inr (Map.empty(''active_connections'' \<mapsto> PNum 101, ''total_connections'' \<mapsto> PNum 106,
             ''database_size'' \<mapsto> PStr ''8 MB'', ''cache_hit_ratio'' \<mapsto> PNone))"
    by (simp add: get_database_stats_def get_database_stats_postgresql_def cursor_execute_def
          db conn failing_on_def pg_server_def queries_postgresql_def first_column_def
          cache_hit_ratio_sql_def sql_div_def NULLIF_def ROUND2_def)
  have slow_fails: "\<exists>st. get_database_stats ?E1 ?m = Inr st
         \<and> check_and_alert ?E1 ?m =
             ([\<lparr>subject = [Lit ''High Active Connection Count''],
                message = [Lit ''Active connections: '', Str (PNum 101)]\<rparr>],
              Inr \<lparr>slow_queries_count = 0, slow_queries = [], stats = st\<rparr>)"
    using probe_failure_is_absorbed [OF conn cls1] f1 db st1
    by (auto simp: check_connections_def check_cache_hit_ratio_def dict_get_def)
  have cls2: "\<forall>q e. drv_execute ?E2 OpenConn q = Inl e \<longrightarrow> is_Exception e"
    by (auto simp: failing_on_def pg_server_def split: stmt.splits if_splits)
  have "isl (drv_execute ?E2 OpenConn CacheHitRatioPG)"
    by (simp add: failing_on_def)
  then have f2: "\<exists>q \<in> snd ` set queries_postgresql. isl (drv_execute ?E2 OpenConn q)"
    using q4 by blast
  have qs2: "get_slow_queries ?E2 ?m = Inr [dict (zip pg_columns pg_slow_row)]"
    by (simp add: get_slow_queries_def get_slow_queries_postgresql_def cursor_execute_def
          db conn failing_on_def pg_server_def)
  have loop2: "slow_query_loop [dict (zip pg_columns pg_slow_row)] =
      ([very_slow_alert (PNum 4711) (Fix2 6) (PStr ''SELECT pg_sleep(10)'')], None)"
    by (simp add: process_query_def dict_def pg_columns_def pg_slow_row_def dict_get_def)
  have stats_fails: "\<exists>qs. get_slow_queries ?E2 ?m = Inr qs
         \<and> check_and_alert ?E2 ?m =
             ([very_slow_alert (PNum 4711) (Fix2 6) (PStr ''SELECT pg_sleep(10)'')],
              Inr \<lparr>slow_queries_count = length qs, slow_queries = qs, stats = Map.empty\<rparr>)"
    using probe_failure_is_absorbed [OF conn cls2] f2 db qs2 loop2
    by auto
  show ?thesis
    using all_fail slow_fails stats_fails by blast
qed

text \<open>
  C4. Every slow query record with \<open>duration_ms\<close> above 5000 is to give a "Very Slow
  Query Detected" finding. The loop formats the duration and slices the preview
  for its log lines before it looks at the threshold, and \<open>query.get\<close> gives its
  default only for a missing key: the record made from a process list row whose
  \<open>Info\<close> is NULL has \<open>query_preview\<close> = \<open>None\<close> and \<open>duration_ms\<close> = 6000, the slice
  raises \<open>TypeError\<close>, no finding is sent and the call ends with that exception.
\<close>

theorem null_preview_aborts_before_alert:
  "mysql_record event_scheduler_row =
     Inr (Map.empty(''pid'' \<mapsto> PNum 5, ''usename'' \<mapsto> PStr ''event_scheduler'',
            ''datname'' \<mapsto> PNone, ''duration_ms'' \<mapsto> PNum 6000,
            ''state'' \<mapsto> PStr ''Waiting on empty queue'', ''query_preview'' \<mapsto> PNone))
   \<and> check_and_alert (mysql_server [event_scheduler_row] 3) (connected_monitor ''mysql'') =
       ([], Inl TypeError)"
  by (simp add: check_and_alert_def get_slow_queries_def get_slow_queries_mysql_def
        connected_monitor_db_type connected_monitor_connection event_scheduler_row_def
        cursor_execute_def mysql_server_def mysql_record_def index_def
        process_query_def dict_get_def)

text \<open>
  C5. When the loop over the slow queries has ended without an exception and the
  statistics hold the key \<open>active_connections\<close>, \<open>check_and_alert\<close> sends exactly one
  "High Active Connection Count" finding if the value is a number above 100, and
  none otherwise.
\<close>

theorem high_connection_alert_threshold:
  assumes "get_slow_queries E self = Inr qs" and "slow_query_loop qs = (a1, None)"
    and "get_database_stats E self = Inr st"
    and "st ''active_connections'' = Some v"
  shows "length (filter is_high_connections (fst (check_and_alert E self))) =
           (case v of PNum x \<Rightarrow> if 100 < x then 1 else 0 | _ \<Rightarrow> (0::nat))"
proof -
  have a1: "filter is_high_connections a1 = []"
    using slow_query_loop_kinds [of _ qs] assms(2) by (intro filter_none) auto
  have a3: "filter is_high_connections (fst (check_cache_hit_ratio st)) = []"
    using check_cache_hit_ratio_kinds [of _ st] by (intro filter_none) auto
  show ?thesis
    using high_connections_count [of st v] assms(4) a1 a3
    by (simp add: check_and_alert_sent [OF assms(1-3)])
qed

theorem high_connection_alert_threshold_witness:
  "length (filter is_high_connections
     (fst (check_and_alert (pg_server [] 100 99 1) (connected_monitor ''postgresql'')))) = 0
   \<and> length (filter is_high_connections
     (fst (check_and_alert (pg_server [] 101 99 1) (connected_monitor ''postgresql'')))) = 1"
proof -
  let ?self = "connected_monitor ''postgresql''"
  note db = connected_monitor_db_type(1)
  note conn = connected_monitor_connection [of "''postgresql''"]
  have qs: "get_slow_queries (pg_server [] n 99 1) ?self = Inr []" for n
    by (simp add: get_slow_queries_def get_slow_queries_postgresql_def cursor_execute_def
          db conn pg_server_def)
  have loop: "slow_query_loop [] = ([], None)" by simp
  have st: "\<exists>st. get_database_stats (pg_server [] n 99 1) ?self = Inr st
              \<and> st ''active_connections'' = Some (PNum n)" for n
    by (simp add: get_database_stats_def get_database_stats_postgresql_def cursor_execute_def
          db conn pg_server_def queries_postgresql_def first_column_def
          cache_hit_ratio_sql_def sql_div_def NULLIF_def ROUND2_def)
  obtain s0 where s0: "get_database_stats (pg_server [] 100 99 1) ?self = Inr s0"
    "s0 ''active_connections'' = Some (PNum 100)" using st [of 100] by blast
  obtain s1 where s1: "get_database_stats (pg_server [] 101 99 1) ?self = Inr s1"
    "s1 ''active_connections'' = Some (PNum 101)" using st [of 101] by blast
  show ?thesis
    using high_connection_alert_threshold [OF qs loop s0]
      high_connection_alert_threshold [OF qs loop s1]
    by simp
qed

text \<open>
  C6. On a database with no buffer hits and no reads the cache hit ratio statement
  yields NULL, not a division error: \<open>NULLIF\<close> turns the zero divisor into NULL. With
  the other three statistics statements answered and the connection count a
  number, the PostgreSQL statistics probe returns a mapping whose \<open>cache_hit_ratio\<close>
  is \<open>None\<close>, the cache rule sends nothing and raises nothing, and
  \<open>check_and_alert\<close> returns its summary when the loop over the slow queries has
  ended without an exception.
\<close>

theorem zero_blocks_yield_absent_ratio:
  assumes "db_type self = ''postgresql''" and "connection self = Some h"
    and "drv_execute E h ActiveConnectionsPG = Inr r1" and "first_column r1 = PNum n"
    and "drv_execute E h TotalConnectionsPG = Inr r2"
    and "drv_execute E h DatabaseSizePG = Inr r3"
    and "drv_execute E h CacheHitRatioPG = cache_hit_ratio_sql 0 0"
    and "get_slow_queries E self = Inr qs" and "slow_query_loop qs = (a1, None)"
  shows "cache_hit_ratio_sql 0 0 = Inr \<lparr>description = [''round''], rows = [[PNone]]\<rparr>
       \<and> (\<exists>st. get_database_stats_postgresql E self = Inr st
             \<and> st ''cache_hit_ratio'' = Some PNone
             \<and> check_cache_hit_ratio st = ([], None)
             \<and> snd (check_and_alert E self) =
                 Inr \<lparr>slow_queries_count = length qs, slow_queries = qs, stats = st\<rparr>)
       \<and> filter is_low_cache (fst (check_and_alert E self)) = []"
proof -
  define st where "st = Map.empty(''active_connections'' \<mapsto> PNum n,
      ''total_connections'' \<mapsto> first_column r2, ''database_size'' \<mapsto> first_column r3,
      ''cache_hit_ratio'' \<mapsto> PNone)"
  have probe: "get_database_stats_postgresql E self = Inr st"
    using assms(2-7)
    by (simp add: get_database_stats_postgresql_def queries_postgresql_def cursor_execute_def
          cache_hit_ratio_sql_zero first_column_def st_def)
  have gs: "get_database_stats E self = Inr st"
    using probe assms(1) by (simp add: get_database_stats_def)
  have key: "st ''cache_hit_ratio'' = Some PNone" by (simp add: st_def)
  have cache: "check_cache_hit_ratio st = ([], None)"
    by (simp add: check_cache_hit_ratio_def key)
  have conn: "snd (check_connections st) = None"
    by (simp add: check_connections_def dict_get_def st_def split: bool.splits)
  have ret: "snd (check_and_alert E self) =
               Inr \<lparr>slow_queries_count = length qs, slow_queries = qs, stats = st\<rparr>"
    using check_and_alert_returns [OF assms(8,9) gs conn] cache by simp
  have none: "filter is_low_cache (fst (check_and_alert E self)) = []"
    using low_cache_alert_rule [OF assms(8,9) gs conn] key by simp
  show ?thesis
    using cache_hit_ratio_sql_zero probe key cache ret none by blast
qed

theorem zero_blocks_yield_absent_ratio_witness:
  "cache_hit_ratio_sql 0 0 = Inr \<lparr>description = [''round''], rows = [[PNone]]\<rparr>
   \<and> (\<exists>st. get_database_stats_postgresql (pg_server [] 3 0 0) (connected_monitor ''postgresql'') = Inr st
         \<and> st ''cache_hit_ratio'' = Some PNone
         \<and> check_cache_hit_ratio st = ([], None)
         \<and> snd (check_and_alert (pg_server [] 3 0 0) (connected_monitor ''postgresql'')) =
             Inr \<lparr>slow_queries_count = 0, slow_queries = [], stats = st\<rparr>)
   \<and> filter is_low_cache (fst (check_and_alert (pg_server [] 3 0 0) (connected_monitor ''postgresql''))) = []"
proof -
  let ?E = "pg_server [] 3 0 0"
  let ?self = "connected_monitor ''postgresql''"
  have e1: "drv_execute ?E OpenConn ActiveConnectionsPG
              = Inr \<lparr>description = [''count''], rows = [[PNum 3]]\<rparr>"
    by (simp add: pg_server_def)
  have f1: "first_column \<lparr>description = [''count''], rows = [[PNum 3]]\<rparr> = PNum 3"
    by (simp add: first_column_def)
  have e2: "drv_execute ?E OpenConn TotalConnectionsPG
              = Inr \<lparr>description = [''count''], rows = [[PNum (3 + 5)]]\<rparr>"
    by (simp add: pg_server_def)
  have e3: "drv_execute ?E OpenConn DatabaseSizePG
              = Inr \<lparr>description = [''pg_size_pretty''], rows = [[PStr ''8 MB'']]\<rparr>"
    by (simp add: pg_server_def)
  have e4: "drv_execute ?E OpenConn CacheHitRatioPG = cache_hit_ratio_sql 0 0"
    by (simp add: pg_server_def)
  have qs: "get_slow_queries ?E ?self = Inr []"
    by (simp add: get_slow_queries_def get_slow_queries_postgresql_def cursor_execute_def
          connected_monitor_db_type connected_monitor_connection pg_server_def)
  have loop: "slow_query_loop [] = ([], None)" by simp
  show ?thesis
    using zero_blocks_yield_absent_ratio
      [OF connected_monitor_db_type(1) connected_monitor_connection e1 f1 e2 e3 e4 qs loop]
    by simp
qed

text \<open>
  C7. When the MySQL slow query statement succeeds and every row has its six
  columns with a number in the \<open>Time\<close> column, the probe returns one record per row,
  in order, and each record's \<open>duration_ms\<close> is that row's \<open>Time\<close> multiplied by
  1000.
\<close>

theorem mysql_duration_in_milliseconds:
  assumes "connection self = Some h" and "drv_execute E h SlowQueriesMySQL = Inr r"
    and "\<forall>row \<in> set (rows r). 6 \<le> length row \<and> (\<exists>t. row ! 3 = PNum t)"
  shows "\<exists>qs. get_slow_queries_mysql E self = Inr qs \<and>
           list_all2 (\<lambda>row q. \<exists>t. row ! 3 = PNum t \<and> q ''duration_ms'' = Some (PNum (t * 1000)))
             (rows r) qs"
  using mysql_records_duration [OF assms(3)] assms(1,2)
  by (auto simp: get_slow_queries_mysql_def cursor_execute_def)

theorem mysql_duration_in_milliseconds_witness:
  "\<exists>qs. get_slow_queries_mysql (mysql_server two_mysql_rows 3) (connected_monitor ''mysql'') = Inr qs \<and>
     list_all2 (\<lambda>row q. \<exists>t. row ! 3 = PNum t \<and> q ''duration_ms'' = Some (PNum (t * 1000)))
       two_mysql_rows qs"
proof -
  let ?r = "\<lparr>description = [], rows = two_mysql_rows\<rparr>"
  have ex: "drv_execute (mysql_server two_mysql_rows 3) OpenConn SlowQueriesMySQL = Inr ?r"
    by (simp add: mysql_server_def)
  have wf: "\<forall>row \<in> set (rows ?r). 6 \<le> length row \<and> (\<exists>t. row ! 3 = PNum t)"
    by (simp add: two_mysql_rows_def)
  show ?thesis
    using mysql_duration_in_milliseconds [OF connected_monitor_connection ex wf] by simp
qed

text \<open>
  C8. \<open>disconnect\<close> on a monitor that was never connected does nothing and raises
  nothing. On a monitor that holds a connection it calls the driver's \<open>close\<close> and
  keeps the connection object, so a second \<open>disconnect\<close> calls \<open>close\<close> on the closed
  connection again and raises exactly when the driver's \<open>close\<close> does.
\<close>

theorem disconnect_behaviour:
  "(connection self = None \<longrightarrow> disconnect E self = Inr self)
   \<and> (\<forall>h h'. connection self = Some h \<and> drv_close E h = Inr h' \<longrightarrow>
         disconnect E self = Inr (self\<lparr>connection := Some h'\<rparr>)
         \<and> disconnect E (self\<lparr>connection := Some h'\<rparr>) =
             (case drv_close E h' of
                Inl e \<Rightarrow> Inl e
              | Inr h'' \<Rightarrow> Inr (self\<lparr>connection := Some h''\<rparr>)))"
  by (simp add: disconnect_def split: sum.splits)

theorem disconnect_behaviour_witness:
  "disconnect (pg_server [] 3 99 1) (init Map.empty ''postgresql'') =
     Inr (init Map.empty ''postgresql'')
   \<and> disconnect (pg_server [] 3 99 1) (connected_monitor ''postgresql'') =
       Inr ((connected_monitor ''postgresql'')\<lparr>connection := Some ClosedConn\<rparr>)
   \<and> disconnect (pg_server [] 3 99 1) ((connected_monitor ''postgresql'')\<lparr>connection := Some ClosedConn\<rparr>) =
       Inr ((connected_monitor ''postgresql'')\<lparr>connection := Some ClosedConn\<rparr>)"
proof -
  have none: "connection (init Map.empty ''postgresql'') = None"
    by (simp add: init_def)
  have cl: "drv_close (pg_server [] 3 99 1) h = Inr ClosedConn" for h
    by (simp add: pg_server_def)
  show ?thesis
    using disconnect_behaviour [of "init Map.empty ''postgresql''" "pg_server [] 3 99 1"]
      disconnect_behaviour [of "connected_monitor ''postgresql''" "pg_server [] 3 99 1"]
      none cl connected_monitor_connection [of "''postgresql''"]
    by simp
qed

text \<open>
  C8 as the specification words it does not hold: with a driver whose \<open>close\<close>
  refuses a connection that is already closed, as pymysql's does, the second
  \<open>disconnect\<close> raises.
\<close>

theorem second_disconnect_raises:
  "disconnect (mysql_server [] 3) (connected_monitor ''mysql'') =
     Inr ((connected_monitor ''mysql'')\<lparr>connection := Some ClosedConn\<rparr>)
   \<and> disconnect (mysql_server [] 3) ((connected_monitor ''mysql'')\<lparr>connection := Some ClosedConn\<rparr>) =
       Inl DriverError"
  by (simp add: disconnect_def mysql_server_def connected_monitor_connection)



text \<open>
  C10. For a monitor whose dialect tag is neither \<open>postgresql\<close> nor \<open>mysql\<close>,
  \<open>get_slow_queries\<close> returns the empty list and \<open>get_database_stats\<close> the empty
  mapping, without an exception and whatever the server, and \<open>check_and_alert\<close>
  sends no alert and returns the summary of an empty cycle.
\<close>

theorem unknown_dialect_empty_cycle:
  assumes "db_type self \<noteq> ''postgresql''" and "db_type self \<noteq> ''mysql''"
  shows "get_slow_queries E self = Inr []
       \<and> get_database_stats E self = Inr Map.empty
       \<and> check_and_alert E self =
           ([], Inr \<lparr>slow_queries_count = 0, slow_queries = [], stats = Map.empty\<rparr>)"
  using assms
  by (simp add: get_slow_queries_def get_database_stats_def check_and_alert_def
        check_connections_def check_cache_hit_ratio_def dict_get_def)

theorem unknown_dialect_empty_cycle_witness:
  "get_slow_queries (pg_server [] 101 0 10) (connected_monitor ''oracle'') = Inr []
   \<and> get_database_stats (pg_server [] 101 0 10) (connected_monitor ''oracle'') = Inr Map.empty
   \<and> check_and_alert (pg_server [] 101 0 10) (connected_monitor ''oracle'') =
       ([], Inr \<lparr>slow_queries_count = 0, slow_queries = [], stats = Map.empty\<rparr>)"
  using unknown_dialect_empty_cycle [of "connected_monitor ''oracle''" "pg_server [] 101 0 10"]
  by (simp add: connected_monitor_db_type)

end
